theory Spec2Isabelle
  imports Complex_Main "HOL-Library.Sublist" "HOL-Library.Multiset" "HOL-Library.Product_Lexorder"
begin

section \<open>fplpicker: points estimator, enrichment and squad optimiser\<close>

text \<open>
  The development follows \<^verbatim>\<open>src/fplpicker.py\<close>. Numbers that Python holds as floats
  (costs, points, league ratings) are exact rationals here, so every statement below is
  about the arithmetic the program writes down, not about rounding. A pandas data frame is
  the list of its rows in index order, and a row label is the position in that list.
\<close>

subsection \<open>Module state\<close>

text \<open>
  The state a function of the module can reach: the league table \<^verbatim>\<open>LEAGUE_DIFFICULTY\<close>
  with the constant \<^verbatim>\<open>PL_BASE\<close> derived from it, and the file \<^verbatim>\<open>CACHE_FILE\<close>, which is
  absent or holds a table of rows. What a scraper returns is a \<open>stats\<close> dictionary; a cache
  row is that dictionary extended by four more keys, with the columns of \<^verbatim>\<open>load_cache\<close>.
\<close>

record stats =
  league :: string
  goals :: rat
  assists :: rat
  minutes :: rat

record cache_record = stats +
  fpl_name :: string
  source_name :: string
  season :: string
  notes_col :: string

record world =
  LEAGUE_DIFFICULTY :: "(string \<times> rat) list"
  PL_BASE :: rat
  cache_file :: "cache_record list option"

definition league_table :: "(string \<times> rat) list" where
  "league_table =
     [(''Premier League'', 90.6), (''La Liga'', 84.8), (''Serie A'', 84.8),
      (''Bundesliga'', 84.2), (''Ligue 1'', 84.3), (''Eredivisie'', 77.2),
      (''Primeira Liga'', 78.8), (''Belgian Pro League'', 80.0),
      (''Championship'', 79.5), (''Scottish Premiership'', 74.0),
      (''Brazil Serie A'', 80.8), (''MLS'', 74.8), (''Argentine Primera'', 77.5),
      (''Russian Premier League'', 75.0), (''Turkish Super Lig'', 75.0),
      (''Austrian Bundesliga'', 75.0), (''Swiss Super League'', 75.7),
      (''Mexican Liga MX'', 73.5), (''Japanese J1 League'', 70.0)]"

text \<open>The state after the module has been loaded, for a given content of the cache file.\<close>

definition module_world :: "cache_record list option \<Rightarrow> world" where
  "module_world f =
     \<lparr>LEAGUE_DIFFICULTY = league_table,
      PL_BASE = (case map_of league_table ''Premier League'' of Some r \<Rightarrow> r | None \<Rightarrow> 0),
      cache_file = f\<rparr>"

subsection \<open>Points estimator\<close>

definition weight_stats :: "world \<Rightarrow> rat \<Rightarrow> rat \<Rightarrow> string \<Rightarrow> rat \<times> rat" where
  "weight_stats w g a lg =
     (let rating = (case map_of (LEAGUE_DIFFICULTY w) lg of
                      Some r \<Rightarrow> r
                    | None \<Rightarrow> PL_BASE w);
          factor = rating / PL_BASE w
      in (g * factor, a * factor))"

definition estimate_fpl_pts :: "rat \<Rightarrow> rat \<Rightarrow> string \<Rightarrow> rat" where
  "estimate_fpl_pts g a pos =
     (let gp = (if pos = ''GK'' then 10
                else if pos = ''DEF'' then 6
                else if pos = ''MID'' then 5
                else 4)
      in g * gp + a * 3)"

text \<open>The two functions chained the way \<^verbatim>\<open>enrich_single\<close> chains them.\<close>

definition projected_points :: "world \<Rightarrow> rat \<Rightarrow> rat \<Rightarrow> string \<Rightarrow> string \<Rightarrow> rat" where
  "projected_points w g a lg pos =
     (case weight_stats w g a lg of
        (gw, aw) \<Rightarrow> estimate_fpl_pts gw aw pos)"

text \<open>
  The words of the specification, to compare with: four roles, a goal weight for each,
  and a factor that is the league's strength over the reference strength, or one.
\<close>

datatype role = Goalkeeper | Defender | Midfielder | Forward

fun role_label :: "role \<Rightarrow> string" where
  "role_label Goalkeeper = ''GK''"
| "role_label Defender = ''DEF''"
| "role_label Midfielder = ''MID''"
| "role_label Forward = ''FWD''"

fun spec_goal_weight :: "role \<Rightarrow> rat" where
  "spec_goal_weight Goalkeeper = 10"
| "spec_goal_weight Defender = 6"
| "spec_goal_weight Midfielder = 5"
| "spec_goal_weight Forward = 4"

definition spec_factor :: "string \<Rightarrow> rat" where
  "spec_factor lg =
     (case map_of league_table lg of
        Some strength \<Rightarrow> strength / 90.6
      | None \<Rightarrow> 1)"

subsection \<open>Enrichment from external statistics\<close>

text \<open>
  A player row carries the columns the program reads or writes. \<open>estimated_points\<close> and
  \<open>ext_league\<close> are absent from the official feed (\<open>None\<close>) until enrichment sets them.
  The feed maps the element types 1 to 4 to the names GK, DEF, MID and FWD and leaves any
  other type without a name (NaN), which like every other value outside the four names is
  equal to none of them; such a position is a string other than the four names here.
  The two scrapers are the outside world: they are taken as two functions from a name to
  the statistics found, if any.
\<close>

record player =
  name :: string
  web_name :: string
  pos :: string
  team :: string
  cost :: rat
  total_points :: rat
  estimated_points :: "rat option"
  ext_league :: "string option"

record provider =
  fetch_tm_stats :: "string \<Rightarrow> stats option"
  fetch_fbref_stats :: "string \<Rightarrow> stats option"

definition SEASON :: string where
  "SEASON = ''2025/2026''"

text \<open>\<^verbatim>\<open>str.strip\<close>, on the whitespace of ASCII.\<close>

definition is_space :: "char \<Rightarrow> bool" where
  "is_space c = (c \<in> set [CHR '' '', CHR 0x09, CHR 0x0A, CHR 0x0B, CHR 0x0C, CHR 0x0D,
                            CHR 0x1C, CHR 0x1D, CHR 0x1E, CHR 0x1F])"

definition strip :: "string \<Rightarrow> string" where
  "strip s = rev (dropWhile is_space (rev (dropWhile is_space s)))"

text \<open>
  The loop of \<^verbatim>\<open>get_external_no_cache_update\<close> over its sources: the first source that
  finds statistics gives the record, and the record of an unknown player is the default.
\<close>

fun lookup_sources ::
  "(string \<times> (string \<Rightarrow> stats option)) list \<Rightarrow> string \<Rightarrow> string \<Rightarrow> cache_record" where
  "lookup_sources [] player_name wname =
     \<lparr>league = ''Unknown'', goals = 0, assists = 0, minutes = 0,
      fpl_name = player_name, source_name = wname, season = SEASON, notes_col = ''none''\<rparr>"
| "lookup_sources ((src, fn) # rest) player_name wname =
     (case fn player_name of
        Some st \<Rightarrow>
          \<lparr>league = league st, goals = goals st, assists = assists st, minutes = minutes st,
           fpl_name = player_name, source_name = wname, season = SEASON, notes_col = src\<rparr>
      | None \<Rightarrow> lookup_sources rest player_name wname)"

text \<open>The rows of the cache that match a player: \<^verbatim>\<open>row\<close> in the source.\<close>

definition cache_rows :: "cache_record list \<Rightarrow> string \<Rightarrow> string \<Rightarrow> cache_record list" where
  "cache_rows cache player_name wname =
     filter (\<lambda>r. fpl_name r = player_name \<or> source_name r = wname) cache"

definition get_external_no_cache_update ::
  "provider \<Rightarrow> string \<Rightarrow> string \<Rightarrow> cache_record list \<Rightarrow> cache_record" where
  "get_external_no_cache_update prov player_name wname cache =
     (case cache_rows cache player_name wname of
        r # _ \<Rightarrow> r
      | [] \<Rightarrow>
          lookup_sources
            [(''Transfermarkt'', fetch_tm_stats prov), (''FBref'', fetch_fbref_stats prov)]
            player_name wname)"

definition lookup_name :: "player \<Rightarrow> string" where
  "lookup_name row = (if strip (name row) \<noteq> [] then strip (name row) else strip (web_name row))"

definition enrich_single :: "world \<Rightarrow> provider \<Rightarrow> player \<Rightarrow> cache_record list \<Rightarrow> player" where
  "enrich_single w prov row cache =
     (if ext_league row = None then
        (let pname = lookup_name row;
             rec = get_external_no_cache_update prov pname (web_name row) cache;
             (gw, aw) = weight_stats w (goals rec) (assists rec) (league rec);
             est = estimate_fpl_pts gw aw (pos row)
         in row\<lparr>total_points := est, estimated_points := Some est,
                ext_league := Some (league rec)\<rparr>)
      else row)"

definition load_cache :: "world \<Rightarrow> cache_record list" where
  "load_cache w = (case cache_file w of Some rows \<Rightarrow> rows | None \<Rightarrow> [])"

definition save_cache :: "cache_record list \<Rightarrow> world \<Rightarrow> world" where
  "save_cache df w = w\<lparr>cache_file := Some df\<rparr>"

text \<open>
  \<^verbatim>\<open>enrich\<close> submits one \<^verbatim>\<open>enrich_single\<close> per row to a pool and collects the results in the
  order of submission. The workers share the cache frame and only read it, and each works
  on its own copy of a row, so the frame returned is the map below whatever the
  interleaving. The list \<^verbatim>\<open>new_records\<close> is the empty list the source assigns.
\<close>

definition enrich :: "provider \<Rightarrow> player list \<Rightarrow> world \<Rightarrow> player list \<times> world" where
  "enrich prov players w =
     (let cache = load_cache w;
          enriched_rows = map (\<lambda>row. enrich_single w prov row cache) players;
          new_records = [];
          cache' = foldl (\<lambda>c r. c @ [r]) cache new_records
      in (enriched_rows, save_cache cache' w))"

text \<open>
  The records a run scrapes: one for each row that is looked up and that the cache does
  not answer.
\<close>

definition needs_lookup :: "cache_record list \<Rightarrow> player \<Rightarrow> bool" where
  "needs_lookup cache row =
     (ext_league row = None \<and> cache_rows cache (lookup_name row) (web_name row) = [])"

definition new_lookups :: "provider \<Rightarrow> player list \<Rightarrow> cache_record list \<Rightarrow> cache_record list" where
  "new_lookups prov players cache =
     map (\<lambda>row. get_external_no_cache_update prov (lookup_name row) (web_name row) cache)
       (filter (needs_lookup cache) players)"

subsection \<open>Squad optimiser\<close>

definition BUDGET :: rat where
  "BUDGET = 100.0"

definition SQUAD_STRUCTURE :: "(string \<times> nat) list" where
  "SQUAD_STRUCTURE = [(''GK'', 2), (''DEF'', 5), (''MID'', 5), (''FWD'', 3)]"

definition MAX_PER_TEAM :: nat where
  "MAX_PER_TEAM = 3"

text \<open>
  The program handed to the solver. A variable is named by the label of its row, and every
  variable is declared binary. A linear expression is the list of its terms, a constraint
  compares an expression with a constant.
\<close>

type_synonym var = nat

datatype sense = LE | GE | EQ

record lp_constraint =
  expr :: "(rat \<times> var) list"
  sense :: sense
  rhs :: rat

record lp_problem =
  binaries :: "var list"
  objective :: "(rat \<times> var) list"
  constraints :: "lp_constraint list"

text \<open>
  What \<^verbatim>\<open>prob.solve()\<close> leaves behind: the status of the problem and the value of each
  variable, \<open>None\<close> where the solver set none.
\<close>

datatype lp_status = NotSolved | Optimal | Infeasible | Unbounded | Undefined

record lp_solution =
  status :: lp_status
  varValue :: "var \<Rightarrow> rat option"

fun LpStatus :: "lp_status \<Rightarrow> string" where
  "LpStatus NotSolved = ''Not Solved''"
| "LpStatus Optimal = ''Optimal''"
| "LpStatus Infeasible = ''Infeasible''"
| "LpStatus Unbounded = ''Unbounded''"
| "LpStatus Undefined = ''Undefined''"

text \<open>\<^verbatim>\<open>Series.unique\<close>: the distinct values in the order of their first appearance.\<close>

fun unique :: "'a list \<Rightarrow> 'a list" where
  "unique [] = []"
| "unique (x # xs) = x # unique (filter (\<lambda>y. y \<noteq> x) xs)"

definition lp_of :: "player list \<Rightarrow> lp_problem" where
  "lp_of players =
     (let player_vars = [0..<length players] in
      \<lparr>binaries = player_vars,
       objective = map (\<lambda>idx. (total_points (players ! idx), idx)) player_vars,
       constraints =
         [\<lparr>expr = map (\<lambda>idx. (cost (players ! idx), idx)) player_vars,
           sense = LE, rhs = BUDGET\<rparr>,
          \<lparr>expr = map (\<lambda>idx. (cost (players ! idx), idx)) player_vars,
           sense = GE, rhs = BUDGET * 0.99\<rparr>]
         @ map (\<lambda>(position, count).
                 \<lparr>expr = map (\<lambda>idx. (1, idx))
                           (filter (\<lambda>idx. pos (players ! idx) = position) player_vars),
                  sense = EQ, rhs = of_nat count\<rparr>)
             SQUAD_STRUCTURE
         @ map (\<lambda>t.
                 \<lparr>expr = map (\<lambda>idx. (1, idx))
                           (filter (\<lambda>idx. team (players ! idx) = t) player_vars),
                  sense = LE, rhs = of_nat MAX_PER_TEAM\<rparr>)
             (unique (map team players))\<rparr>)"

text \<open>
  The comprehension that reads the values back compares each with 0.5, in the order of
  the rows; comparing \<^verbatim>\<open>None\<close> with a number raises \<^verbatim>\<open>TypeError\<close>.
\<close>

datatype py_error = TypeError

fun selected :: "(var \<Rightarrow> rat option) \<Rightarrow> var list \<Rightarrow> py_error + var list" where
  "selected vv [] = Inr []"
| "selected vv (idx # rest) =
     (case vv idx of
        None \<Rightarrow> Inl TypeError
      | Some v \<Rightarrow>
          (case selected vv rest of
             Inl e \<Rightarrow> Inl e
           | Inr chosen \<Rightarrow> Inr (if v > 0.5 then idx # chosen else chosen)))"

text \<open>
  What a run of \<^verbatim>\<open>optimize_squad\<close> does that can be seen from outside: it runs the solver
  on a problem, and it prints. The result is the trace of these events and the squad
  returned or the exception raised. The solver is the parameter \<open>solve\<close>.
\<close>

datatype event = Solve lp_problem | Print string

definition optimize_squad ::
  "(lp_problem \<Rightarrow> lp_solution) \<Rightarrow> player list \<Rightarrow> event list \<times> (py_error + player list)" where
  "optimize_squad solve players =
     (let prob = lp_of players;
          sol = solve prob;
          warning =
            (if status sol \<noteq> Optimal
             then [Print (''Warning: Solver status: '' @ LpStatus (status sol))]
             else [])
      in (Solve prob # warning,
          case selected (varValue sol) [0..<length players] of
            Inl e \<Rightarrow> Inl e
          | Inr selected_idx \<Rightarrow> Inr (map (\<lambda>idx. players ! idx) selected_idx)))"

subsection \<open>What a solver answers\<close>

text \<open>
  The meaning of a program under an assignment of its variables, and what the status
  \<^verbatim>\<open>Optimal\<close> of a mixed-integer solver stands for: every variable has a value, the values
  are 0 or 1 and meet every constraint, and no such assignment has a larger objective.
\<close>

definition lp_value :: "(var \<Rightarrow> rat) \<Rightarrow> (rat \<times> var) list \<Rightarrow> rat" where
  "lp_value x e = sum_list (map (\<lambda>(a, v). a * x v) e)"

definition holds :: "(var \<Rightarrow> rat) \<Rightarrow> lp_constraint \<Rightarrow> bool" where
  "holds x c =
     (case sense c of
        LE \<Rightarrow> lp_value x (expr c) \<le> rhs c
      | GE \<Rightarrow> lp_value x (expr c) \<ge> rhs c
      | EQ \<Rightarrow> lp_value x (expr c) = rhs c)"

definition binary :: "lp_problem \<Rightarrow> (var \<Rightarrow> rat) \<Rightarrow> bool" where
  "binary prob x = list_all (\<lambda>v. x v = 0 \<or> x v = 1) (binaries prob)"

definition feasible :: "lp_problem \<Rightarrow> (var \<Rightarrow> rat) \<Rightarrow> bool" where
  "feasible prob x = (binary prob x \<and> list_all (holds x) (constraints prob))"

definition assignment :: "lp_solution \<Rightarrow> var \<Rightarrow> rat" where
  "assignment sol v = (case varValue sol v of Some r \<Rightarrow> r | None \<Rightarrow> 0)"

definition assigned :: "lp_problem \<Rightarrow> lp_solution \<Rightarrow> bool" where
  "assigned prob sol = list_all (\<lambda>v. varValue sol v \<noteq> None) (binaries prob)"

definition solved :: "lp_problem \<Rightarrow> lp_solution \<Rightarrow> bool" where
  "solved prob sol =
     (status sol = Optimal \<and> assigned prob sol \<and> feasible prob (assignment sol))"

definition solved_optimal :: "lp_problem \<Rightarrow> lp_solution \<Rightarrow> bool" where
  "solved_optimal prob sol =
     (solved prob sol \<and>
      (\<forall>y. feasible prob y \<longrightarrow>
           lp_value y (objective prob) \<le> lp_value (assignment sol) (objective prob)))"

text \<open>
  The answer of an exact solver: an optimal one when some assignment is feasible, and a
  status other than \<^verbatim>\<open>Optimal\<close> when none is.
\<close>

definition exact_answer :: "lp_problem \<Rightarrow> lp_solution \<Rightarrow> bool" where
  "exact_answer prob sol =
     (solved_optimal prob sol \<or> ((\<forall>y. \<not> feasible prob y) \<and> status sol \<noteq> Optimal))"

subsection \<open>Squads\<close>

text \<open>
  The constraints as the specification words them, on a list of players: the count in each
  role, the count from each team, the total cost between 99 per cent of the budget and the
  budget. A subset of the input is a subsequence of the list of its rows.
\<close>

definition role_count :: "player list \<Rightarrow> string \<Rightarrow> nat" where
  "role_count squad position = length (filter (\<lambda>p. pos p = position) squad)"

definition team_count :: "player list \<Rightarrow> string \<Rightarrow> nat" where
  "team_count squad t = length (filter (\<lambda>p. team p = t) squad)"

definition total_cost :: "player list \<Rightarrow> rat" where
  "total_cost squad = sum_list (map cost squad)"

definition squad_points :: "player list \<Rightarrow> rat" where
  "squad_points squad = sum_list (map total_points squad)"

definition squad_ok :: "player list \<Rightarrow> bool" where
  "squad_ok squad =
     (total_cost squad \<le> BUDGET \<and> BUDGET * 0.99 \<le> total_cost squad
      \<and> list_all (\<lambda>(position, count). role_count squad position = count) SQUAD_STRUCTURE
      \<and> list_all (\<lambda>t. team_count squad t \<le> MAX_PER_TEAM) (map team squad))"

definition known_position :: "player \<Rightarrow> bool" where
  "known_position p = (pos p \<in> set (map fst SQUAD_STRUCTURE))"

definition malformed :: "player \<Rightarrow> bool" where
  "malformed p = (cost p < 0 \<or> \<not> known_position p)"

definition infeasible :: "player list \<Rightarrow> bool" where
  "infeasible players = list_all (\<lambda>squad. \<not> squad_ok squad) (subseqs players)"

subsection \<open>Presentation\<close>

text \<open>
  The listing of \<^verbatim>\<open>__main__\<close>: the squad sorted by the rank of the position, ascending,
  then by points, descending. A position without a rank maps to NaN, which
  \<^verbatim>\<open>sort_values\<close> puts after every rank, as the rank 4 does here; the sort is stable.
\<close>

definition pos_order :: "(string \<times> nat) list" where
  "pos_order = [(''GK'', 0), (''DEF'', 1), (''MID'', 2), (''FWD'', 3)]"

definition pos_rank :: "player \<Rightarrow> nat" where
  "pos_rank p = (case map_of pos_order (pos p) of Some k \<Rightarrow> k | None \<Rightarrow> 4)"

definition listing :: "player list \<Rightarrow> player list" where
  "listing squad = sort_key (\<lambda>p. (pos_rank p, - total_points p)) squad"

subsection \<open>Reading a squad off an assignment\<close>

text \<open>
  The rows whose variable is above one half, and the assignment that is 1 on a set of row
  labels and 0 elsewhere.
\<close>

definition squad_of :: "player list \<Rightarrow> (var \<Rightarrow> rat) \<Rightarrow> player list" where
  "squad_of players x =
     map (\<lambda>idx. players ! idx) (filter (\<lambda>idx. x idx > 0.5) [0..<length players])"

definition indicator_of :: "nat set \<Rightarrow> var \<Rightarrow> rat" where
  "indicator_of N v = (if v \<in> N then 1 else 0)"

subsection \<open>Example inputs\<close>

text \<open>A new signing that only Transfermarkt knows, and the record scraped for him.\<close>

definition example_row :: player where
  "example_row =
     \<lparr>name = ''Joao Novo'', web_name = ''Novo'', pos = ''FWD'', team = ''Arsenal'',
      cost = 7.5, total_points = 0, estimated_points = None, ext_league = None\<rparr>"

definition example_provider :: provider where
  "example_provider =
     \<lparr>fetch_tm_stats =
        (\<lambda>n. if n = ''Joao Novo''
             then Some \<lparr>league = ''Primeira Liga'', goals = 20, assists = 5, minutes = 2700\<rparr>
             else None),
      fetch_fbref_stats = (\<lambda>n. None)\<rparr>"

definition silent_provider :: provider where
  "silent_provider = \<lparr>fetch_tm_stats = (\<lambda>n. None), fetch_fbref_stats = (\<lambda>n. None)\<rparr>"

definition example_record :: cache_record where
  "example_record =
     \<lparr>league = ''Primeira Liga'', goals = 20, assists = 5, minutes = 2700,
      fpl_name = ''Joao Novo'', source_name = ''Novo'', season = ''2025/2026'',
      notes_col = ''Transfermarkt''\<rparr>"

text \<open>
  Fifteen players that fill the structure for a total cost of 99.0, three from each of
  five teams, and variations: a sixteenth row with a position outside the structure, a
  third goalkeeper, a goalkeeper with a negative cost, a goalkeeper alone.
\<close>

definition mk_player :: "string \<Rightarrow> string \<Rightarrow> string \<Rightarrow> rat \<Rightarrow> rat \<Rightarrow> player" where
  "mk_player n position t c pts =
     \<lparr>name = n, web_name = n, pos = position, team = t, cost = c, total_points = pts,
      estimated_points = None, ext_league = None\<rparr>"

definition base_squad :: "player list" where
  "base_squad =
     [mk_player ''g1'' ''GK'' ''A'' 4.5 120, mk_player ''g2'' ''GK'' ''B'' 5.0 130,
      mk_player ''d1'' ''DEF'' ''A'' 5.5 140, mk_player ''d2'' ''DEF'' ''B'' 5.0 110,
      mk_player ''d3'' ''DEF'' ''C'' 6.0 150, mk_player ''d4'' ''DEF'' ''D'' 4.5 100,
      mk_player ''d5'' ''DEF'' ''E'' 5.5 125,
      mk_player ''m1'' ''MID'' ''A'' 8.0 200, mk_player ''m2'' ''MID'' ''B'' 7.0 160,
      mk_player ''m3'' ''MID'' ''C'' 9.5 220, mk_player ''m4'' ''MID'' ''D'' 6.5 150,
      mk_player ''m5'' ''MID'' ''E'' 7.5 170,
      mk_player ''f1'' ''FWD'' ''C'' 8.5 180, mk_player ''f2'' ''FWD'' ''D'' 9.0 190,
      mk_player ''f3'' ''FWD'' ''E'' 7.0 155]"

definition with_manager :: "player list" where
  "with_manager = base_squad @ [mk_player ''am'' ''AM'' ''F'' 0.5 30]"

definition three_keepers :: "player list" where
  "three_keepers = base_squad @ [mk_player ''g3'' ''GK'' ''F'' 4.5 90]"

definition negative_cost :: "player list" where
  "negative_cost =
     mk_player ''g1'' ''GK'' ''A'' (- 1.0) 120 # mk_player ''g2'' ''GK'' ''B'' 10.5 130
       # drop 2 base_squad"

definition lone_keeper :: "player list" where
  "lone_keeper = [mk_player ''g1'' ''GK'' ''A'' 4.5 120]"

definition unsorted_squad :: "player list" where
  "unsorted_squad =
     [mk_player ''f1'' ''FWD'' ''C'' 8.5 180, mk_player ''g1'' ''GK'' ''A'' 4.5 120,
      mk_player ''d1'' ''DEF'' ''A'' 5.5 140, mk_player ''g2'' ''GK'' ''B'' 5.0 130,
      mk_player ''m1'' ''MID'' ''A'' 8.0 200]"

text \<open>
  Answers of a solver: every variable at 1, every variable at 1 but the sixteenth, and
  two answers of a solver that found the problem infeasible, with and without values.
\<close>

definition pick_all :: "lp_problem \<Rightarrow> lp_solution" where
  "pick_all prob = \<lparr>status = Optimal, varValue = (\<lambda>v. Some 1)\<rparr>"

definition leave_last :: "lp_problem \<Rightarrow> lp_solution" where
  "leave_last prob = \<lparr>status = Optimal, varValue = (\<lambda>v. Some (if v < 15 then 1 else 0))\<rparr>"

definition report_infeasible :: "lp_problem \<Rightarrow> lp_solution" where
  "report_infeasible prob = \<lparr>status = Infeasible, varValue = (\<lambda>v. Some 1)\<rparr>"

definition give_up :: "lp_problem \<Rightarrow> lp_solution" where
  "give_up prob = \<lparr>status = Infeasible, varValue = (\<lambda>v. None)\<rparr>"

lemmas fixture_defs = base_squad_def mk_player_def total_cost_def role_count_def
  team_count_def BUDGET_def SQUAD_STRUCTURE_def MAX_PER_TEAM_def

subsection \<open>The estimator: results\<close>

lemma PL_BASE_module: "PL_BASE (module_world f) = 90.6"
  by (simp add: module_world_def league_table_def)

lemma LEAGUE_DIFFICULTY_module: "LEAGUE_DIFFICULTY (module_world f) = league_table"
  by (simp add: module_world_def)

lemma weight_stats_module:
  "weight_stats (module_world f) g a lg = (g * spec_factor lg, a * spec_factor lg)"
  by (simp add: weight_stats_def spec_factor_def PL_BASE_module LEAGUE_DIFFICULTY_module
      split: option.split)

lemma estimate_fpl_pts_role:
  "estimate_fpl_pts g a (role_label r) = g * spec_goal_weight r + a * 3"
  by (cases r) (simp_all add: estimate_fpl_pts_def)

text \<open>
  Claim C4. With the league table of the module, the estimate for goals, assists, a league
  and one of the four positions is weighted goals times the goal weight of the position
  (10, 6, 5, 4) plus weighted assists times 3, where both are weighted by the league's
  strength over the Premier League's, and by 1 for a league that is not in the table.
\<close>

theorem projected_points_formula:
  "projected_points (module_world f) g a lg (role_label r)
     = (g * spec_factor lg) * spec_goal_weight r + (a * spec_factor lg) * 3"
  by (simp add: projected_points_def weight_stats_module estimate_fpl_pts_role)

theorem projected_points_formula_witness:
  "projected_points (module_world None) 10 4 ''La Liga'' ''DEF'' = 10176 / 151
   \<and> projected_points (module_world None) 10 4 ''Unknown'' ''GK'' = 112"
  using projected_points_formula [of None 10 4 "''La Liga''" Defender]
        projected_points_formula [of None 10 4 "''Unknown''" Goalkeeper]
  by (simp add: spec_factor_def league_table_def)

text \<open>
  Claim C9. The estimator is a function of its four arguments and of the league table
  alone: in two states of the module that agree on the table and on the reference strength,
  whatever the cache file holds, the same goals, assists,
  league and position give the same points. The model has no state to return because the
  two source functions assign to nothing but their own locals.
\<close>

theorem estimator_reads_only_table:
  "LEAGUE_DIFFICULTY w1 = LEAGUE_DIFFICULTY w2 \<Longrightarrow> PL_BASE w1 = PL_BASE w2 \<Longrightarrow>
   projected_points w1 g a lg p = projected_points w2 g a lg p"
  by (simp add: projected_points_def weight_stats_def split: option.split)

theorem estimator_reads_only_table_witness:
  "projected_points (module_world None) 7 2 ''Serie A'' ''MID''
     = projected_points (module_world (Some [])) 7 2 ''Serie A'' ''MID''"
  using estimator_reads_only_table
          [of "module_world None" "module_world (Some [])" 7 2 "''Serie A''" "''MID''"]
  by (simp add: module_world_def)

text \<open>
  Claim C10. A position other than GK, DEF and MID, a known one or not, is scored with the
  forward's goal weight 4; the estimator has a value at every position string.
\<close>

theorem estimate_fpl_pts_other_position:
  "p \<noteq> ''GK'' \<Longrightarrow> p \<noteq> ''DEF'' \<Longrightarrow> p \<noteq> ''MID'' \<Longrightarrow>
   estimate_fpl_pts g a p = g * 4 + a * 3"
  by (simp add: estimate_fpl_pts_def)

theorem estimate_fpl_pts_other_position_witness:
  "''striker'' \<noteq> ''GK'' \<and> ''striker'' \<noteq> ''DEF'' \<and> ''striker'' \<noteq> ''MID''
   \<and> estimate_fpl_pts 3 2 ''striker'' = 18"
  using estimate_fpl_pts_other_position [of "''striker''" 3 2]
  by simp

subsection \<open>Enrichment: results\<close>

lemma enrich_saves_loaded: "cache_file (snd (enrich prov players w)) = Some (load_cache w)"
  by (simp add: enrich_def save_cache_def Let_def)

lemma lookup_name_example: "lookup_name example_row = ''Joao Novo''"
  by (simp add: lookup_name_def example_row_def strip_def is_space_def)

lemma lookup_example:
  "get_external_no_cache_update example_provider ''Joao Novo'' ''Novo'' [] = example_record"
  by (simp add: get_external_no_cache_update_def cache_rows_def example_provider_def
      example_record_def SEASON_def)

text \<open>
  Claim C6, which the code does not meet. The run below looks one player up at
  Transfermarkt, with no cache file on disk. The record found is the one new lookup of the
  run, and the cache that \<^verbatim>\<open>enrich\<close> saves has no row: the loop that should append the new
  records runs over a list that is always empty.
\<close>

theorem enrich_drops_new_lookup:
  "new_lookups example_provider [example_row] (load_cache (module_world None))
     = [example_record]
   \<and> cache_file (snd (enrich example_provider [example_row] (module_world None))) = Some []"
  by (simp add: new_lookups_def needs_lookup_def lookup_name_example enrich_saves_loaded)
     (simp add: load_cache_def module_world_def cache_rows_def example_row_def lookup_example)

text \<open>
  Claim C7. Take a player whose points were estimated from some record, scraped or cached.
  With the league table unchanged, any later cache that answers for this player with a
  record of the same league, goals and assists gives back the stored value: the
  estimator applied to the cached record equals the stored points, and enriching the
  player's row again, whatever the scrapers now say, produces the same row.
\<close>

theorem cached_record_round_trip:
  assumes "ext_league row = None"
    and "LEAGUE_DIFFICULTY w' = LEAGUE_DIFFICULTY w" and "PL_BASE w' = PL_BASE w"
    and "cache_rows cache' (lookup_name row) (web_name row) = r # rest"
    and "league r = league (get_external_no_cache_update prov (lookup_name row) (web_name row) cache)"
    and "goals r = goals (get_external_no_cache_update prov (lookup_name row) (web_name row) cache)"
    and "assists r = assists (get_external_no_cache_update prov (lookup_name row) (web_name row) cache)"
  shows "projected_points w' (goals r) (assists r) (league r) (pos row)
           = total_points (enrich_single w prov row cache)
         \<and> enrich_single w' prov' row cache' = enrich_single w prov row cache"
  using assms
  by (simp add: enrich_single_def Let_def get_external_no_cache_update_def weight_stats_def
      projected_points_def split: option.split)

theorem cached_record_round_trip_witness:
  "total_points (enrich_single (module_world None) example_provider example_row []) = 37430 / 453
   \<and> projected_points (module_world (Some [example_record])) 20 5 ''Primeira Liga'' ''FWD''
       = 37430 / 453
   \<and> enrich_single (module_world (Some [example_record])) silent_provider example_row
        [example_record]
       = enrich_single (module_world None) example_provider example_row []"
proof -
  have hit: "cache_rows [example_record] (lookup_name example_row) (web_name example_row)
               = example_record # []"
    by (simp add: cache_rows_def lookup_name_example) (simp add: example_record_def)
  have rec: "get_external_no_cache_update example_provider (lookup_name example_row)
               (web_name example_row) [] = example_record"
    by (simp add: lookup_name_example) (simp add: example_row_def lookup_example)
  have "projected_points (module_world (Some [example_record])) 20 5 ''Primeira Liga'' ''FWD''
          = 37430 / 453"
    by (simp add: projected_points_def weight_stats_def estimate_fpl_pts_def module_world_def
        league_table_def)
  with cached_record_round_trip
         [of example_row "module_world (Some [example_record])" "module_world None"
             "[example_record]" example_record "[]" example_provider "[]" silent_provider]
       hit rec
  show ?thesis
    by (simp add: module_world_def) (simp add: example_row_def example_record_def)
qed

subsection \<open>Presentation: results\<close>

lemma listing_sorted: "sorted (map (\<lambda>p. (pos_rank p, - total_points p)) (listing squad))"
  by (simp add: listing_def)

lemma listing_pair:
  assumes "i < j" "j < length (listing squad)"
  shows "pos_rank (listing squad ! i) \<le> pos_rank (listing squad ! j)"
    and "pos_rank (listing squad ! i) = pos_rank (listing squad ! j) \<Longrightarrow>
         total_points (listing squad ! j) \<le> total_points (listing squad ! i)"
proof -
  let ?k = "\<lambda>p. (pos_rank p, - total_points p)"
  let ?l = "listing squad"
  have "map ?k ?l ! i \<le> map ?k ?l ! j"
    using sorted_nth_mono [OF listing_sorted [of squad], of i j] assms by simp
  then have le: "?k (?l ! i) \<le> ?k (?l ! j)"
    using assms by simp
  show "pos_rank (?l ! i) \<le> pos_rank (?l ! j)"
    using le by (auto simp: less_eq_prod_def)
  show "total_points (?l ! j) \<le> total_points (?l ! i)"
    if "pos_rank (?l ! i) = pos_rank (?l ! j)"
    using le that by (auto simp: less_eq_prod_def)
qed

text \<open>
  Claim C8. The listing holds the players of the squad, each once. Positions appear in the
  order GK, DEF, MID, FWD, which are the ranks 0 to 3, and of two players with the same
  position the one listed first has at least the points of the other.
\<close>

theorem listing_order:
  "mset (listing squad) = mset squad
   \<and> (\<forall>i j. i < j \<and> j < length (listing squad) \<longrightarrow>
         pos_rank (listing squad ! i) \<le> pos_rank (listing squad ! j)
         \<and> (pos (listing squad ! i) = pos (listing squad ! j) \<longrightarrow>
              total_points (listing squad ! j) \<le> total_points (listing squad ! i)))"
  using listing_pair [of _ _ squad]
  by (auto simp: listing_def pos_rank_def)

theorem listing_order_witness:
  "map name (listing unsorted_squad) = [''g2'', ''g1'', ''d1'', ''m1'', ''f1'']
   \<and> map pos_rank (listing unsorted_squad) = [0, 0, 1, 2, 3]
   \<and> total_points (listing unsorted_squad ! 1) \<le> total_points (listing unsorted_squad ! 0)"
proof -
  have l: "listing unsorted_squad =
             [mk_player ''g2'' ''GK'' ''B'' 5.0 130, mk_player ''g1'' ''GK'' ''A'' 4.5 120,
              mk_player ''d1'' ''DEF'' ''A'' 5.5 140, mk_player ''m1'' ''MID'' ''A'' 8.0 200,
              mk_player ''f1'' ''FWD'' ''C'' 8.5 180]"
    by (simp add: listing_def unsorted_squad_def mk_player_def pos_rank_def pos_order_def
        less_eq_prod_def)
  from listing_order [of unsorted_squad] have
    "0 < (1::nat) \<and> 1 < length (listing unsorted_squad) \<longrightarrow>
       (pos (listing unsorted_squad ! 0) = pos (listing unsorted_squad ! 1) \<longrightarrow>
          total_points (listing unsorted_squad ! 1) \<le> total_points (listing unsorted_squad ! 0))"
    by blast
  then show ?thesis
    by (simp add: l) (simp add: mk_player_def pos_rank_def pos_order_def)
qed

subsection \<open>The program and the squad it stands for\<close>

text \<open>
  Under an assignment of 0 and 1 to the variables, each linear expression of the program
  is a quantity of the rows chosen: the cost expression is their total cost, the
  objective their total points, the expression of a role or of a team the number of
  them in it. So the assignment meets the constraints exactly when the rows chosen are
  a squad in the sense of \<open>squad_ok\<close>.
\<close>

lemma selected_assigned:
  "list_all (\<lambda>v. vv v \<noteq> None) is \<Longrightarrow>
   selected vv is = Inr (filter (\<lambda>i. (case vv i of Some r \<Rightarrow> r | None \<Rightarrow> 0) > 0.5) is)"
  by (induction "is") auto

lemma selected_unassigned:
  "\<not> list_all (\<lambda>v. vv v \<noteq> None) is \<Longrightarrow> selected vv is = Inl TypeError"
proof (induction "is")
  case Nil
  then show ?case by simp
next
  case (Cons i "is")
  show ?case
  proof (cases "vv i")
    case None
    then show ?thesis by simp
  next
    case (Some v)
    with Cons show ?thesis by simp
  qed
qed

lemma binaries_lp_of: "binaries (lp_of players) = [0..<length players]"
  by (simp add: lp_of_def Let_def)

lemma objective_lp_of:
  "objective (lp_of players)
     = map (\<lambda>idx. (total_points (players ! idx), idx)) [0..<length players]"
  by (simp add: lp_of_def Let_def)

lemma constraints_lp_of:
  "constraints (lp_of players) =
     [\<lparr>expr = map (\<lambda>idx. (cost (players ! idx), idx)) [0..<length players],
       sense = LE, rhs = BUDGET\<rparr>,
      \<lparr>expr = map (\<lambda>idx. (cost (players ! idx), idx)) [0..<length players],
       sense = GE, rhs = BUDGET * 0.99\<rparr>]
     @ map (\<lambda>(position, count).
             \<lparr>expr = map (\<lambda>idx. (1, idx))
                       (filter (\<lambda>idx. pos (players ! idx) = position) [0..<length players]),
              sense = EQ, rhs = of_nat count\<rparr>)
         SQUAD_STRUCTURE
     @ map (\<lambda>t.
             \<lparr>expr = map (\<lambda>idx. (1, idx))
                       (filter (\<lambda>idx. team (players ! idx) = t) [0..<length players]),
              sense = LE, rhs = of_nat MAX_PER_TEAM\<rparr>)
         (unique (map team players))"
  by (simp add: lp_of_def Let_def)

lemma binary_lp_of:
  "binary (lp_of players) x = list_all (\<lambda>v. x v = 0 \<or> x v = 1) [0..<length players]"
  by (simp add: binary_def binaries_lp_of)

lemma optimize_squad_result:
  assumes "assigned (lp_of players) (solve (lp_of players))"
  shows "snd (optimize_squad solve players)
           = Inr (squad_of players (assignment (solve (lp_of players))))"
proof -
  have "list_all (\<lambda>v. varValue (solve (lp_of players)) v \<noteq> None) [0..<length players]"
    using assms by (simp add: assigned_def binaries_lp_of)
  from selected_assigned [OF this] show ?thesis
    by (simp add: optimize_squad_def Let_def squad_of_def assignment_def)
qed

lemma lp_value_terms:
  "lp_value x (map (\<lambda>i. (f i, i)) is) = sum_list (map (\<lambda>i. f i * x i) is)"
  by (simp add: lp_value_def comp_def)

lemma sum_binary:
  "list_all (\<lambda>v. x v = 0 \<or> x v = (1::rat)) is \<Longrightarrow>
   sum_list (map (\<lambda>i. f i * x i) is) = sum_list (map f (filter (\<lambda>i. x i > 0.5) is))"
  by (induction "is") auto

lemma lp_value_binary:
  assumes "list_all (\<lambda>v. x v = 0 \<or> x v = 1) is"
  shows "lp_value x (map (\<lambda>i. (f i, i)) (filter P is))
           = sum_list (map f (filter P (filter (\<lambda>i. x i > 0.5) is)))"
proof -
  have "list_all (\<lambda>v. x v = 0 \<or> x v = 1) (filter P is)"
    using assms by (simp add: list_all_iff)
  from sum_binary [OF this, of f] show ?thesis
    by (simp add: lp_value_terms conj_commute)
qed

lemma lp_value_binary_all:
  assumes "list_all (\<lambda>v. x v = 0 \<or> x v = 1) is"
  shows "lp_value x (map (\<lambda>i. (f i, i)) is)
           = sum_list (map f (filter (\<lambda>i. x i > 0.5) is))"
  using lp_value_binary [OF assms, of f "\<lambda>_. True"] by simp

lemma cost_value:
  assumes "binary (lp_of players) x"
  shows "lp_value x (map (\<lambda>idx. (cost (players ! idx), idx)) [0..<length players])
           = total_cost (squad_of players x)"
proof -
  have b: "list_all (\<lambda>v. x v = 0 \<or> x v = 1) [0..<length players]"
    using assms by (simp add: binary_lp_of)
  show ?thesis
    by (simp add: lp_value_binary_all [OF b] total_cost_def squad_of_def comp_def)
qed

lemma objective_value:
  assumes "binary (lp_of players) x"
  shows "lp_value x (objective (lp_of players)) = squad_points (squad_of players x)"
proof -
  have b: "list_all (\<lambda>v. x v = 0 \<or> x v = 1) [0..<length players]"
    using assms by (simp add: binary_lp_of)
  show ?thesis
    by (simp add: objective_lp_of lp_value_binary_all [OF b] squad_points_def squad_of_def
        comp_def)
qed

lemma role_value:
  assumes "binary (lp_of players) x"
  shows "lp_value x (map (\<lambda>idx. (1, idx))
                      (filter (\<lambda>idx. pos (players ! idx) = r) [0..<length players]))
           = of_nat (role_count (squad_of players x) r)"
proof -
  have b: "list_all (\<lambda>v. x v = 0 \<or> x v = 1) [0..<length players]"
    using assms by (simp add: binary_lp_of)
  show ?thesis
    by (simp add: lp_value_binary [OF b] role_count_def squad_of_def filter_map comp_def
        sum_list_triv)
qed

lemma team_value:
  assumes "binary (lp_of players) x"
  shows "lp_value x (map (\<lambda>idx. (1, idx))
                      (filter (\<lambda>idx. team (players ! idx) = t) [0..<length players]))
           = of_nat (team_count (squad_of players x) t)"
proof -
  have b: "list_all (\<lambda>v. x v = 0 \<or> x v = 1) [0..<length players]"
    using assms by (simp add: binary_lp_of)
  show ?thesis
    by (simp add: lp_value_binary [OF b] team_count_def squad_of_def filter_map comp_def
        sum_list_triv)
qed

lemma set_unique: "set (unique xs) = set xs"
  by (induction xs rule: unique.induct) auto

lemma squad_of_subset: "set (squad_of players x) \<subseteq> set players"
  by (auto simp: squad_of_def)

lemma team_count_absent: "t \<notin> set (map team squad) \<Longrightarrow> team_count squad t = 0"
  by (auto simp: team_count_def filter_empty_conv)

lemma team_cap_all:
  "list_all (\<lambda>t. team_count squad t \<le> m) (map team squad) \<longleftrightarrow> (\<forall>t. team_count squad t \<le> m)"
proof
  assume a: "list_all (\<lambda>t. team_count squad t \<le> m) (map team squad)"
  show "\<forall>t. team_count squad t \<le> m"
  proof
    fix t
    show "team_count squad t \<le> m"
    proof (cases "t \<in> set (map team squad)")
      case True
      with a show ?thesis by (auto simp: list_all_iff)
    next
      case False
      then show ?thesis by (simp add: team_count_absent)
    qed
  qed
next
  assume "\<forall>t. team_count squad t \<le> m"
  then show "list_all (\<lambda>t. team_count squad t \<le> m) (map team squad)"
    by (simp add: list_all_iff)
qed

lemma team_cap_input:
  "list_all (\<lambda>t. team_count (squad_of players x) t \<le> m) (map team players)
     \<longleftrightarrow> (\<forall>t. team_count (squad_of players x) t \<le> m)"
proof
  assume a: "list_all (\<lambda>t. team_count (squad_of players x) t \<le> m) (map team players)"
  show "\<forall>t. team_count (squad_of players x) t \<le> m"
  proof
    fix t
    show "team_count (squad_of players x) t \<le> m"
    proof (cases "t \<in> set (map team players)")
      case True
      with a show ?thesis by (auto simp: list_all_iff)
    next
      case False
      with squad_of_subset [of players x]
      have "t \<notin> set (map team (squad_of players x))" by auto
      then show ?thesis by (simp add: team_count_absent)
    qed
  qed
next
  assume "\<forall>t. team_count (squad_of players x) t \<le> m"
  then show "list_all (\<lambda>t. team_count (squad_of players x) t \<le> m) (map team players)"
    by (simp add: list_all_iff)
qed

lemma constraints_iff:
  assumes "binary (lp_of players) x"
  shows "list_all (holds x) (constraints (lp_of players)) \<longleftrightarrow> squad_ok (squad_of players x)"
proof -
  let ?s = "squad_of players x"
  have roles:
    "list_all (holds x)
       (map (\<lambda>(position, count).
               \<lparr>expr = map (\<lambda>idx. (1, idx))
                         (filter (\<lambda>idx. pos (players ! idx) = position) [0..<length players]),
                sense = EQ, rhs = of_nat count\<rparr>) SQUAD_STRUCTURE)
     \<longleftrightarrow> list_all (\<lambda>(position, count). role_count ?s position = count) SQUAD_STRUCTURE"
    by (simp add: list.pred_map comp_def split_def holds_def role_value [OF assms])
  have teams:
    "list_all (holds x)
       (map (\<lambda>t.
               \<lparr>expr = map (\<lambda>idx. (1, idx))
                         (filter (\<lambda>idx. team (players ! idx) = t) [0..<length players]),
                sense = LE, rhs = of_nat MAX_PER_TEAM\<rparr>) (unique (map team players)))
     \<longleftrightarrow> list_all (\<lambda>t. team_count ?s t \<le> MAX_PER_TEAM) (map team players)"
    by (simp add: list.pred_map comp_def holds_def team_value [OF assms] list_all_iff
        set_unique)
  have "list_all (holds x) (constraints (lp_of players)) \<longleftrightarrow>
        total_cost ?s \<le> BUDGET \<and> BUDGET * 0.99 \<le> total_cost ?s
        \<and> list_all (\<lambda>(position, count). role_count ?s position = count) SQUAD_STRUCTURE
        \<and> list_all (\<lambda>t. team_count ?s t \<le> MAX_PER_TEAM) (map team players)"
    unfolding constraints_lp_of list_all_append roles teams
    by (simp add: holds_def cost_value [OF assms])
  then show ?thesis
    by (simp add: squad_ok_def team_cap_input team_cap_all)
qed

lemma optimize_squad_events:
  "fst (optimize_squad solve players)
     = Solve (lp_of players)
       # (if status (solve (lp_of players)) \<noteq> Optimal
          then [Print (''Warning: Solver status: '' @ LpStatus (status (solve (lp_of players))))]
          else [])"
  by (simp add: optimize_squad_def Let_def)

lemma optimize_squad_unassigned:
  assumes "\<not> assigned (lp_of players) (solve (lp_of players))"
  shows "snd (optimize_squad solve players) = Inl TypeError"
proof -
  have "\<not> list_all (\<lambda>v. varValue (solve (lp_of players)) v \<noteq> None) [0..<length players]"
    using assms by (simp add: assigned_def binaries_lp_of)
  from selected_unassigned [OF this] show ?thesis
    by (simp add: optimize_squad_def Let_def)
qed

lemma nths_restrict:
  assumes "\<And>i. i < length xs \<Longrightarrow> (i \<in> A) = (i \<in> B)"
  shows "nths xs A = nths xs B"
proof -
  have "filter (\<lambda>p. snd p \<in> A) (zip xs [0..<length xs])
          = filter (\<lambda>p. snd p \<in> B) (zip xs [0..<length xs])"
    by (rule filter_cong) (auto simp: set_zip assms)
  then show ?thesis by (simp add: nths_def)
qed

lemma rows_of_filter:
  "map (\<lambda>idx. players ! idx) (filter P [0..<length players])
     = nths players {i. P i}"
proof -
  have "filter P [0..<length players]
          = nths [0..<length players] {i. i < length players \<and> P i}"
    by (simp add: filter_eq_nths cong: conj_cong)
  also have "\<dots> = nths [0..<length players] {i. P i}"
    by (rule nths_restrict) simp
  finally have "map (\<lambda>idx. players ! idx) (filter P [0..<length players])
          = nths (map (\<lambda>idx. players ! idx) [0..<length players]) {i. P i}"
    by (simp add: nths_map)
  then show ?thesis by (simp add: map_nth)
qed

lemma squad_of_nths: "squad_of players x = nths players {i. x i > 0.5}"
  by (simp add: squad_of_def rows_of_filter)

lemma squad_of_subseqs: "squad_of players x \<in> set (subseqs players)"
  by (auto simp: set_subseqs_eq subseq_conv_nths squad_of_nths)

lemma subseqs_squad_of:
  assumes "other \<in> set (subseqs players)"
  obtains y where "binary (lp_of players) y" and "squad_of players y = other"
proof -
  from assms obtain N where N: "other = nths players N"
    by (auto simp: set_subseqs_eq subseq_conv_nths)
  have "binary (lp_of players) (indicator_of N)"
    by (simp add: binary_lp_of indicator_of_def list_all_iff)
  moreover have "squad_of players (indicator_of N) = other"
    by (simp add: squad_of_nths N indicator_of_def)
  ultimately show ?thesis by (rule that)
qed

lemma length_by_role:
  assumes "list_all known_position squad"
  shows "length squad = role_count squad ''GK'' + role_count squad ''DEF''
            + role_count squad ''MID'' + role_count squad ''FWD''"
  using assms
  by (induction squad) (auto simp: known_position_def SQUAD_STRUCTURE_def role_count_def)

lemma known_position_subset:
  "list_all known_position players \<Longrightarrow> list_all known_position (squad_of players x)"
  using squad_of_subset [of players x] by (auto simp: list_all_iff)

lemma solved_not_infeasible:
  assumes "solved (lp_of players) sol"
  shows "\<not> infeasible players"
proof -
  from assms have bin: "binary (lp_of players) (assignment sol)"
    and cs: "list_all (holds (assignment sol)) (constraints (lp_of players))"
    by (simp_all add: solved_def feasible_def)
  from cs have "squad_ok (squad_of players (assignment sol))"
    by (simp add: constraints_iff [OF bin])
  with squad_of_subseqs [of players "assignment sol"] show ?thesis
    by (auto simp: infeasible_def list_all_iff)
qed

lemma no_squad_of_no_assignment:
  assumes "\<forall>y. \<not> feasible (lp_of players) y" and "other \<in> set (subseqs players)"
  shows "\<not> squad_ok other"
proof
  assume ok: "squad_ok other"
  from assms(2) obtain y where y: "binary (lp_of players) y" "squad_of players y = other"
    by (rule subseqs_squad_of)
  with ok have "feasible (lp_of players) y"
    by (simp add: feasible_def constraints_iff)
  with assms(1) show False by blast
qed

lemma optimize_squad_returned:
  assumes "snd (optimize_squad solve players) = Inr squad"
  shows "squad = squad_of players (assignment (solve (lp_of players)))"
proof (cases "assigned (lp_of players) (solve (lp_of players))")
  case True
  from optimize_squad_result [of players solve, OF True] assms show ?thesis by simp
next
  case False
  from optimize_squad_unassigned [of players solve, OF False] assms show ?thesis by simp
qed

subsection \<open>Answers on the example inputs\<close>

lemma squad_of_all: "squad_of players (\<lambda>v. 1) = players"
  by (simp add: squad_of_def map_nth)

lemma assignment_pick_all: "assignment (pick_all prob) = (\<lambda>v. 1)"
  by (simp add: assignment_def pick_all_def fun_eq_iff)

lemma solved_pick_all:
  assumes "squad_ok players"
  shows "solved (lp_of players) (pick_all (lp_of players))"
proof -
  have b: "binary (lp_of players) (\<lambda>v. 1)"
    by (simp add: binary_lp_of list_all_iff)
  have "list_all (holds (\<lambda>v. 1)) (constraints (lp_of players))"
    using assms by (simp add: constraints_iff [OF b] squad_of_all)
  with b show ?thesis
    by (simp add: solved_def feasible_def assignment_pick_all assigned_def list_all_iff)
       (simp add: pick_all_def)
qed

lemma squad_ok_base: "squad_ok base_squad"
  by (simp add: squad_ok_def base_squad_def mk_player_def total_cost_def role_count_def
      team_count_def BUDGET_def SQUAD_STRUCTURE_def MAX_PER_TEAM_def)

lemma run_pick_all:
  "squad_ok players \<Longrightarrow> optimize_squad pick_all players = ([Solve (lp_of players)], Inr players)"
  using optimize_squad_result [of players pick_all]
  by (simp add: solved_pick_all [unfolded solved_def] optimize_squad_def Let_def prod_eq_iff
      assignment_pick_all squad_of_all)

lemma squad_ok_with_manager: "squad_ok with_manager"
  by (simp add: squad_ok_def with_manager_def fixture_defs)

lemma squad_ok_negative_cost: "squad_ok negative_cost"
  by (simp add: squad_ok_def negative_cost_def fixture_defs)

lemma binary_bounds:
  assumes "binary (lp_of players) y" and "i < length players"
  shows "0 \<le> y i \<and> y i \<le> 1"
proof -
  from assms have "y i = 0 \<or> y i = 1"
    by (simp add: binary_lp_of list_all_iff)
  then show ?thesis by auto
qed

lemma sum_le_all:
  assumes "\<And>i. i \<in> set is \<Longrightarrow> 0 \<le> y i \<and> y i \<le> (1::rat)" and "\<And>i. i \<in> set is \<Longrightarrow> 0 \<le> f i"
  shows "sum_list (map (\<lambda>i. f i * y i) is) \<le> sum_list (map f is)"
  using assms
proof (induction "is")
  case Nil
  then show ?case by simp
next
  case (Cons i "is")
  have "f i * y i \<le> f i * 1"
    using Cons.prems [of i] by (intro mult_left_mono) simp_all
  moreover have "sum_list (map (\<lambda>i. f i * y i) is) \<le> sum_list (map f is)"
    using Cons by simp
  ultimately show ?case by simp
qed

lemma optimal_pick_all:
  assumes "squad_ok players" and "list_all (\<lambda>p. 0 \<le> total_points p) players"
  shows "solved_optimal (lp_of players) (pick_all (lp_of players))"
proof -
  have "lp_value y (objective (lp_of players))
          \<le> lp_value (\<lambda>v. 1) (objective (lp_of players))"
    if "feasible (lp_of players) y" for y
  proof -
    from that have b: "binary (lp_of players) y" by (simp add: feasible_def)
    have "sum_list (map (\<lambda>i. total_points (players ! i) * y i) [0..<length players])
            \<le> sum_list (map (\<lambda>i. total_points (players ! i)) [0..<length players])"
      using binary_bounds [OF b] assms(2) by (intro sum_le_all) (simp_all add: list_all_iff)
    then show ?thesis
      by (simp add: objective_lp_of lp_value_terms)
  qed
  with solved_pick_all [OF assms(1)] show ?thesis
    by (simp add: solved_optimal_def assignment_pick_all)
qed

lemma assignment_leave_last: "assignment (leave_last prob) = (\<lambda>v. if v < 15 then 1 else 0)"
  by (simp add: assignment_def leave_last_def fun_eq_iff)

lemma length_three_keepers: "length three_keepers = 16"
  by (simp add: three_keepers_def base_squad_def)

lemma upt_16: "[0..<16] = [0, 1, 2, 3, 4, 5, 6, 7, 8, 9, 10, 11, 12, 13, 14, 15]"
  by (simp add: upt_rec)

lemma squad_of_leave_last:
  "squad_of three_keepers (\<lambda>v. if v < 15 then 1 else 0) = base_squad"
  by (simp add: squad_of_def length_three_keepers upt_16)
     (simp add: three_keepers_def base_squad_def)

lemma solved_leave_last: "solved (lp_of three_keepers) (leave_last (lp_of three_keepers))"
proof -
  have b: "binary (lp_of three_keepers) (\<lambda>v. if v < 15 then 1 else 0)"
    by (simp add: binary_lp_of list_all_iff)
  have "list_all (holds (\<lambda>v. if v < 15 then 1 else 0)) (constraints (lp_of three_keepers))"
    by (simp add: constraints_iff [OF b] squad_of_leave_last squad_ok_base)
  with b show ?thesis
    by (simp add: solved_def feasible_def assignment_leave_last assigned_def list_all_iff)
       (simp add: leave_last_def)
qed

lemma keepers_of_three_keepers:
  "filter (\<lambda>idx. pos (three_keepers ! idx) = ''GK'') [0..<length three_keepers] = [0, 1, 15]"
  by (simp add: length_three_keepers upt_16) (simp add: three_keepers_def fixture_defs)

lemma objective_three_keepers:
  "lp_value y (objective (lp_of three_keepers)) =
     120 * y 0 + 130 * y 1 + 140 * y 2 + 110 * y 3 + 150 * y 4 + 100 * y 5 + 125 * y 6
     + 200 * y 7 + 160 * y 8 + 220 * y 9 + 150 * y 10 + 170 * y 11
     + 180 * y 12 + 190 * y 13 + 155 * y 14 + 90 * y 15"
  by (simp add: objective_lp_of length_three_keepers upt_16)
     (simp add: three_keepers_def fixture_defs lp_value_def)

lemma optimal_leave_last:
  "solved_optimal (lp_of three_keepers) (leave_last (lp_of three_keepers))"
proof -
  have "lp_value y (objective (lp_of three_keepers))
          \<le> lp_value (\<lambda>v. if v < 15 then 1 else 0) (objective (lp_of three_keepers))"
    if f: "feasible (lp_of three_keepers) y" for y
  proof -
    from f have b: "binary (lp_of three_keepers) y" by (simp add: feasible_def)
    have bd: "0 \<le> y i \<and> y i \<le> 1" if "i < 16" for i
      using binary_bounds [OF b, of i] that by (simp add: length_three_keepers)
    from f have "holds y
           \<lparr>expr = map (\<lambda>idx. (1, idx))
                     (filter (\<lambda>idx. pos (three_keepers ! idx) = ''GK'')
                        [0..<length three_keepers]),
            sense = EQ, rhs = of_nat 2\<rparr>"
      by (simp add: feasible_def constraints_lp_of SQUAD_STRUCTURE_def)
    then have gk: "y 0 + y 1 + y 15 = 2"
      by (simp add: keepers_of_three_keepers holds_def lp_value_def)
    show ?thesis
      unfolding objective_three_keepers
      using gk bd [of 0] bd [of 1] bd [of 2] bd [of 3] bd [of 4] bd [of 5] bd [of 6] bd [of 7]
        bd [of 8] bd [of 9] bd [of 10] bd [of 11] bd [of 12] bd [of 13] bd [of 14] bd [of 15]
      by simp
  qed
  with solved_leave_last show ?thesis
    by (simp add: solved_optimal_def assignment_leave_last)
qed

lemma tl_append_subseqs: "tl xs @ ys \<in> set (subseqs (xs @ ys))"
  by (cases xs) (simp_all add: Let_def subseqs_refl)

lemma infeasible_lone_keeper: "infeasible lone_keeper"
  by (simp add: infeasible_def lone_keeper_def squad_ok_def fixture_defs)

subsection \<open>The optimiser: results\<close>

text \<open>
  Claim C1, as the code has it. In the solved case, that is when the solver reports
  \<^verbatim>\<open>Optimal\<close> with a value of 0 or 1 for every variable that meets the constraints, the
  optimiser returns a squad and prints nothing. The squad has the required number of
  players in each role, at most \<open>MAX_PER_TEAM\<close> players of any team, and a total cost between
  99 per cent of the budget and the budget. It has 15 players, the sum of the required
  counts, when every input row has one of the four positions; a row with another
  position is bound by no count.
\<close>

theorem optimize_squad_constraints:
  assumes "solved (lp_of players) (solve (lp_of players))"
  shows "\<exists>squad. optimize_squad solve players = ([Solve (lp_of players)], Inr squad)
           \<and> (list_all known_position players \<longrightarrow>
                length squad = sum_list (map snd SQUAD_STRUCTURE))
           \<and> list_all (\<lambda>(position, count). role_count squad position = count) SQUAD_STRUCTURE
           \<and> (\<forall>t. team_count squad t \<le> MAX_PER_TEAM)
           \<and> total_cost squad \<le> BUDGET \<and> BUDGET * 0.99 \<le> total_cost squad"
proof -
  let ?sol = "solve (lp_of players)"
  let ?s = "squad_of players (assignment ?sol)"
  from assms have st: "status ?sol = Optimal" and as: "assigned (lp_of players) ?sol"
    and bin: "binary (lp_of players) (assignment ?sol)"
    and cs: "list_all (holds (assignment ?sol)) (constraints (lp_of players))"
    by (simp_all add: solved_def feasible_def)
  from cs have ok: "squad_ok ?s" by (simp add: constraints_iff [OF bin])
  have run: "optimize_squad solve players = ([Solve (lp_of players)], Inr ?s)"
    using optimize_squad_result [of players solve, OF as] st
    by (simp add: optimize_squad_def Let_def prod_eq_iff)
  have roles: "list_all (\<lambda>(position, count). role_count ?s position = count) SQUAD_STRUCTURE"
    using ok by (simp add: squad_ok_def)
  have len: "length ?s = sum_list (map snd SQUAD_STRUCTURE)" if "list_all known_position players"
    using length_by_role [OF known_position_subset [OF that, of "assignment ?sol"]] roles
    by (simp add: SQUAD_STRUCTURE_def)
  have teams: "\<forall>t. team_count ?s t \<le> MAX_PER_TEAM"
    using ok by (simp add: squad_ok_def team_cap_all)
  from run len roles teams ok show ?thesis
    by (simp add: squad_ok_def)
qed

theorem optimize_squad_constraints_witness:
  "solved (lp_of base_squad) (pick_all (lp_of base_squad))
   \<and> list_all known_position base_squad
   \<and> (\<exists>squad. optimize_squad pick_all base_squad = ([Solve (lp_of base_squad)], Inr squad)
          \<and> length squad = 15
          \<and> role_count squad ''GK'' = 2 \<and> role_count squad ''DEF'' = 5
          \<and> role_count squad ''MID'' = 5 \<and> role_count squad ''FWD'' = 3
          \<and> team_count squad ''A'' \<le> 3
          \<and> total_cost squad \<le> 100 \<and> 99 \<le> total_cost squad)"
proof -
  have k: "list_all known_position base_squad"
    by (simp add: known_position_def fixture_defs)
  have s: "solved (lp_of base_squad) (pick_all (lp_of base_squad))"
    by (rule solved_pick_all [OF squad_ok_base])
  from optimize_squad_constraints [of base_squad pick_all, OF s] k
  obtain squad where run: "optimize_squad pick_all base_squad = ([Solve (lp_of base_squad)], Inr squad)"
    and len: "length squad = sum_list (map snd SQUAD_STRUCTURE)"
    and roles: "list_all (\<lambda>(position, count). role_count squad position = count) SQUAD_STRUCTURE"
    and teams: "\<forall>t. team_count squad t \<le> MAX_PER_TEAM"
    and costs: "total_cost squad \<le> BUDGET" "BUDGET * 0.99 \<le> total_cost squad"
    by blast
  from len have "length squad = 15"
    by (simp add: SQUAD_STRUCTURE_def)
  moreover from roles have "role_count squad ''GK'' = 2 \<and> role_count squad ''DEF'' = 5
      \<and> role_count squad ''MID'' = 5 \<and> role_count squad ''FWD'' = 3"
    by (simp add: SQUAD_STRUCTURE_def)
  moreover from teams have "team_count squad ''A'' \<le> 3"
    by (simp add: MAX_PER_TEAM_def)
  moreover from costs have "total_cost squad \<le> 100 \<and> 99 \<le> total_cost squad"
    by (simp add: BUDGET_def)
  ultimately show ?thesis
    using k s run by blast
qed

text \<open>
  The claim as the specification states it fails on an input with a row outside the four
  positions. Here the fifteen players and a sixteenth with position AM are all chosen by
  an optimal answer of the program, and the optimiser returns sixteen players.
\<close>

theorem optimize_squad_sixteen_players:
  "solved_optimal (lp_of with_manager) (pick_all (lp_of with_manager))
   \<and> optimize_squad pick_all with_manager = ([Solve (lp_of with_manager)], Inr with_manager)
   \<and> length with_manager = 16
   \<and> sum_list (map snd SQUAD_STRUCTURE) = 15"
proof -
  have "list_all (\<lambda>p. 0 \<le> total_points p) with_manager"
    by (simp add: with_manager_def fixture_defs)
  from optimal_pick_all [OF squad_ok_with_manager this] run_pick_all [OF squad_ok_with_manager]
  show ?thesis
    by (simp add: with_manager_def base_squad_def SQUAD_STRUCTURE_def)
qed

text \<open>
  Claim C2. Let the solver be exact on the program of the input. Then whenever the
  optimiser returns a squad, that squad is a subset of the input, and no subset of the
  input that meets the budget ceiling, the budget floor, the counts per position and the
  cap per team has more points in total.
\<close>

theorem optimize_squad_optimal:
  assumes "exact_answer (lp_of players) (solve (lp_of players))"
    and "snd (optimize_squad solve players) = Inr squad"
  shows "squad \<in> set (subseqs players)
         \<and> (\<forall>other \<in> set (subseqs players).
               squad_ok other \<longrightarrow> squad_points other \<le> squad_points squad)"
proof -
  let ?sol = "solve (lp_of players)"
  have sq: "squad = squad_of players (assignment ?sol)"
    using assms(2) by (rule optimize_squad_returned)
  have "squad_points other \<le> squad_points squad"
    if o: "other \<in> set (subseqs players)" "squad_ok other" for other
  proof (cases "solved_optimal (lp_of players) ?sol")
    case True
    then have bin: "binary (lp_of players) (assignment ?sol)"
      and best: "\<And>y. feasible (lp_of players) y \<Longrightarrow>
                 lp_value y (objective (lp_of players))
                   \<le> lp_value (assignment ?sol) (objective (lp_of players))"
      by (simp_all add: solved_optimal_def solved_def feasible_def)
    from o(1) obtain y where y: "binary (lp_of players) y" "squad_of players y = other"
      by (rule subseqs_squad_of)
    with o(2) have "feasible (lp_of players) y"
      by (simp add: feasible_def constraints_iff)
    from best [OF this] show ?thesis
      by (simp add: objective_value [OF y(1)] objective_value [OF bin] y(2) sq)
  next
    case False
    with assms(1) have "\<forall>y. \<not> feasible (lp_of players) y"
      by (simp add: exact_answer_def)
    from no_squad_of_no_assignment [OF this o(1)] o(2) show ?thesis by simp
  qed
  with sq squad_of_subseqs [of players "assignment ?sol"] show ?thesis by blast
qed

theorem optimize_squad_optimal_witness:
  "exact_answer (lp_of three_keepers) (leave_last (lp_of three_keepers))
   \<and> snd (optimize_squad leave_last three_keepers) = Inr base_squad
   \<and> squad_ok (tl base_squad @ [mk_player ''g3'' ''GK'' ''F'' 4.5 90])
   \<and> squad_points (tl base_squad @ [mk_player ''g3'' ''GK'' ''F'' 4.5 90])
       \<le> squad_points base_squad
   \<and> squad_points (tl base_squad @ [mk_player ''g3'' ''GK'' ''F'' 4.5 90]) = 2270
   \<and> squad_points base_squad = 2300"
proof -
  let ?other = "tl base_squad @ [mk_player ''g3'' ''GK'' ''F'' 4.5 90]"
  have ex: "exact_answer (lp_of three_keepers) (leave_last (lp_of three_keepers))"
    using optimal_leave_last by (simp add: exact_answer_def)
  have run: "snd (optimize_squad leave_last three_keepers) = Inr base_squad"
    using optimize_squad_result [of three_keepers leave_last] solved_leave_last
    by (simp add: solved_def assignment_leave_last squad_of_leave_last)
  have sub: "?other \<in> set (subseqs three_keepers)"
    unfolding three_keepers_def by (rule tl_append_subseqs)
  have ok: "squad_ok ?other"
    by (simp add: squad_ok_def fixture_defs)
  from optimize_squad_optimal [OF ex run] sub ok
  have le: "squad_points ?other \<le> squad_points base_squad"
    by blast
  have "squad_points ?other = 2270" and "squad_points base_squad = 2300"
    by (simp_all add: squad_points_def fixture_defs)
  with ex run ok le show ?thesis
    by simp
qed

text \<open>
  Claim C3, as the code has it. On an input that no squad satisfies, with a solver that
  reports \<^verbatim>\<open>Optimal\<close> only for an answer that meets the constraints, the optimiser prints
  one warning that names the solver's status and goes on: it returns the rows whose value
  is above one half, which are not a valid squad, or it raises \<^verbatim>\<open>TypeError\<close> when a
  variable has no value. The code has no signal for an infeasible problem.
\<close>

theorem optimize_squad_infeasible:
  assumes "infeasible players"
    and "status (solve (lp_of players)) = Optimal \<longrightarrow> solved (lp_of players) (solve (lp_of players))"
  shows "fst (optimize_squad solve players)
           = [Solve (lp_of players),
              Print (''Warning: Solver status: '' @ LpStatus (status (solve (lp_of players))))]
         \<and> snd (optimize_squad solve players)
           = (if assigned (lp_of players) (solve (lp_of players))
              then Inr (squad_of players (assignment (solve (lp_of players))))
              else Inl TypeError)
         \<and> (\<forall>squad. snd (optimize_squad solve players) = Inr squad \<longrightarrow> \<not> squad_ok squad)"
proof -
  let ?sol = "solve (lp_of players)"
  have st: "status ?sol \<noteq> Optimal"
    using assms solved_not_infeasible [of players ?sol] by blast
  have res: "snd (optimize_squad solve players)
           = (if assigned (lp_of players) ?sol
              then Inr (squad_of players (assignment ?sol))
              else Inl TypeError)"
    using optimize_squad_result [of players solve] optimize_squad_unassigned [of players solve]
    by simp
  have "\<not> squad_ok (squad_of players (assignment ?sol))"
    using assms(1) squad_of_subseqs [of players "assignment ?sol"]
    by (auto simp: infeasible_def list_all_iff)
  with st res show ?thesis
    by (auto simp: optimize_squad_events split: if_splits)
qed

theorem optimize_squad_infeasible_witness:
  "infeasible lone_keeper
   \<and> fst (optimize_squad give_up lone_keeper)
       = [Solve (lp_of lone_keeper), Print ''Warning: Solver status: Infeasible'']
   \<and> snd (optimize_squad give_up lone_keeper) = Inl TypeError"
proof -
  have s: "status (give_up (lp_of lone_keeper)) = Infeasible"
    by (simp add: give_up_def)
  have a: "\<not> assigned (lp_of lone_keeper) (give_up (lp_of lone_keeper))"
    by (simp add: assigned_def binaries_lp_of give_up_def lone_keeper_def)
  from optimize_squad_infeasible [of lone_keeper give_up] infeasible_lone_keeper
  show ?thesis
    by (simp add: s a)
qed

text \<open>
  The claim as the specification states it fails: one goalkeeper alone fills no squad, the
  solver says so, and the optimiser returns that one player as the squad.
\<close>

theorem optimize_squad_returns_partial_squad:
  "infeasible lone_keeper
   \<and> optimize_squad report_infeasible lone_keeper
       = ([Solve (lp_of lone_keeper), Print ''Warning: Solver status: Infeasible''],
          Inr lone_keeper)
   \<and> length lone_keeper = 1"
  by (simp add: infeasible_lone_keeper)
     (simp add: optimize_squad_def Let_def report_infeasible_def lone_keeper_def)

text \<open>
  Claim C5, as the code has it. The optimiser checks nothing about its input. On every
  input the first thing it does is to run the solver on the program built from the rows
  as they are; and on an input with a malformed row, a negative cost or a position
  outside the structure, a solved program gives a squad like any other.
\<close>

theorem optimize_squad_no_validation:
  "fst (optimize_squad solve players)
     = Solve (lp_of players)
       # (if status (solve (lp_of players)) \<noteq> Optimal
          then [Print (''Warning: Solver status: '' @ LpStatus (status (solve (lp_of players))))]
          else [])
   \<and> (list_ex malformed players \<and> solved (lp_of players) (solve (lp_of players)) \<longrightarrow>
        optimize_squad solve players
          = ([Solve (lp_of players)],
             Inr (squad_of players (assignment (solve (lp_of players))))))"
  using optimize_squad_result [of players solve]
  by (auto simp: optimize_squad_events solved_def prod_eq_iff)

theorem optimize_squad_no_validation_witness:
  "list_ex malformed negative_cost
   \<and> solved (lp_of negative_cost) (pick_all (lp_of negative_cost))
   \<and> fst (optimize_squad pick_all negative_cost) = [Solve (lp_of negative_cost)]
   \<and> snd (optimize_squad pick_all negative_cost) = Inr negative_cost"
proof -
  have m: "list_ex malformed negative_cost"
    by (simp add: negative_cost_def mk_player_def malformed_def)
  have s: "solved (lp_of negative_cost) (pick_all (lp_of negative_cost))"
    by (rule solved_pick_all [OF squad_ok_negative_cost])
  have st: "status (pick_all (lp_of negative_cost)) = Optimal"
    by (simp add: pick_all_def)
  from optimize_squad_no_validation [of pick_all negative_cost] m s
  show ?thesis
    by (simp add: st assignment_pick_all squad_of_all)
qed

text \<open>
  The claim as the specification states it fails: a goalkeeper with the cost -1 is in
  the input, the solver is run on it, and the squad returned contains him.
\<close>

theorem optimize_squad_solves_negative_cost:
  "list_ex malformed negative_cost
   \<and> solved_optimal (lp_of negative_cost) (pick_all (lp_of negative_cost))
   \<and> optimize_squad pick_all negative_cost = ([Solve (lp_of negative_cost)], Inr negative_cost)
   \<and> cost (hd negative_cost) = - 1"
proof -
  have "list_all (\<lambda>p. 0 \<le> total_points p) negative_cost"
    by (simp add: negative_cost_def fixture_defs)
  from optimal_pick_all [OF squad_ok_negative_cost this] run_pick_all [OF squad_ok_negative_cost]
  show ?thesis
    by (simp add: negative_cost_def mk_player_def malformed_def)
qed

end
